theory Spec2Isabelle
  imports Complex_Main
begin

section \<open>Values exchanged with the HTTP layer and the document store\<close>

text \<open>
  A JSON value, as \<^verbatim>\<open>express.json()\<close> hands it to a handler in \<^verbatim>\<open>req.body\<close> and as the
  store keeps it in a document field. Numbers are never computed with by the handlers, so
  they are kept as exact rationals. An object is an association list of pairs (field
  name, field value), in the object's own order.
\<close>

datatype json =
    JNull
  | JBool bool
  | JNum rat
  | JStr string
  | JArr "json list"
  | JObj "(string \<times> json) list"

type_synonym fields = "(string \<times> json) list"

text \<open>A thrown JavaScript \<^verbatim>\<open>Error\<close>; the handlers read only its \<^verbatim>\<open>message\<close>.\<close>

datatype error = Error (message: string)

text \<open>
  Modelled from the spec: the class \<^verbatim>\<open>Product\<close> of \<^verbatim>\<open>models/productModel.js\<close>, which
  is not among the sources. The spec gives it the fields id, name, price, retailer and
  amountInStock; the constructor is called with these five arguments in this order. A
  field read from a document that does not carry it is JavaScript's \<^verbatim>\<open>undefined\<close>, here
  \<open>None\<close>.
\<close>

datatype Product =
  Product string "json option" "json option" "json option" "json option"

text \<open>
  Modelled from the spec: how a \<^verbatim>\<open>Product\<close> appears in a JSON response body
  (\<^verbatim>\<open>{id, name, price, retailer, amountInStock}\<close>). Serialisation leaves out a property
  whose value is \<^verbatim>\<open>undefined\<close>.
\<close>

definition defined_props :: "(string \<times> json option) list \<Rightarrow> fields" where
  "defined_props ps = List.map_filter (\<lambda>(k, v). map_option (Pair k) v) ps"

fun toJSON :: "Product \<Rightarrow> fields" where
  "toJSON (Product i n p r a) =
     (''id'', JStr i) #
     defined_props [(''name'', n), (''price'', p), (''retailer'', r), (''amountInStock'', a)]"

text \<open>What a handler passes to \<^verbatim>\<open>res.send\<close>: a string, a document's fields, or the
  array of products.\<close>

datatype payload =
    Text string
  | Object fields
  | Array "Product list"

record response =
  status :: nat
  sent :: payload

text \<open>The part of the request the handlers read: \<^verbatim>\<open>req.params.id\<close> and \<^verbatim>\<open>req.body\<close>.\<close>

record request =
  params_id :: string
  body :: json

section \<open>The store interface\<close>

text \<open>
  The functions imported from \<^verbatim>\<open>firebase/firestore\<close> are not part of the repository. They
  are a parameter of every handler: a record of functions over an arbitrary store state
  \<open>'s\<close>. A call either returns a value or throws an \<open>error\<close>, and in both cases leaves a
  store state behind.
\<close>

datatype collection_ref = collection string

datatype document_ref = DocumentRef string string

datatype query_document_snapshot =
  QueryDocumentSnapshot (doc_id: string) (data: fields)

type_synonym query_snapshot = "query_document_snapshot list"

type_synonym document_snapshot = "fields option"

type_synonym ('s, 'a) store_call = "'s \<Rightarrow> (error + 'a) \<times> 's"

record 's firestore =
  doc :: "string \<Rightarrow> string \<Rightarrow> error + document_ref"
  addDoc :: "collection_ref \<Rightarrow> json \<Rightarrow> ('s, document_ref) store_call"
  getDoc :: "document_ref \<Rightarrow> ('s, document_snapshot) store_call"
  getDocs :: "collection_ref \<Rightarrow> ('s, query_snapshot) store_call"
  updateDoc :: "document_ref \<Rightarrow> json \<Rightarrow> ('s, unit) store_call"
  deleteDoc :: "document_ref \<Rightarrow> ('s, unit) store_call"

text \<open>\<^verbatim>\<open>snapshot.empty\<close> and \<^verbatim>\<open>snapshot.exists()\<close>.\<close>

definition empty :: "query_snapshot \<Rightarrow> bool" where
  "empty products = (products = [])"

definition exists_snapshot :: "document_snapshot \<Rightarrow> bool" where
  "exists_snapshot d = (d \<noteq> None)"

section \<open>Handlers as computations that may throw\<close>

text \<open>
  A handler runs against the store behind \<^verbatim>\<open>db\<close> and the response object \<^verbatim>\<open>res\<close>; \<open>res\<close>
  collects what was sent, in order. A computation returns a value or throws.
\<close>

record 's world =
  db :: 's
  res :: "response list"

type_synonym ('s, 'a) io = "'s world \<Rightarrow> (error + 'a) \<times> 's world"

definition await :: "('s, 'a) store_call \<Rightarrow> ('s, 'a) io" where
  "await call w = (case call (db w) of (r, s') \<Rightarrow> (r, w\<lparr>db := s'\<rparr>))"

definition sync :: "error + 'a \<Rightarrow> ('s, 'a) io" where
  "sync r w = (r, w)"

definition and_then :: "('s, 'a) io \<Rightarrow> ('a \<Rightarrow> ('s, 'b) io) \<Rightarrow> ('s, 'b) io" where
  "and_then m f w = (case m w of (Inl e, w') \<Rightarrow> (Inl e, w') | (Inr x, w') \<Rightarrow> f x w')"

definition try_catch :: "('s, 'a) io \<Rightarrow> (error \<Rightarrow> ('s, 'a) io) \<Rightarrow> ('s, 'a) io" where
  "try_catch m h w = (case m w of (Inl e, w') \<Rightarrow> h e w' | (Inr x, w') \<Rightarrow> (Inr x, w'))"

definition send :: "nat \<Rightarrow> payload \<Rightarrow> ('s, unit) io" where
  "send code x w = (Inr (), w\<lparr>res := res w @ [\<lparr>status = code, sent = x\<rparr>]\<rparr>)"

section \<open>The five handlers of productController.js\<close>

definition createProduct :: "'s firestore \<Rightarrow> request \<Rightarrow> ('s, unit) io" where
  "createProduct fs req =
     try_catch
       (let data = body req in
        and_then (await (addDoc fs (collection ''products'') data)) (\<lambda>_.
        send 200 (Text ''product created successfully'')))
       (\<lambda>error. send 400 (Text (message error)))"

text \<open>The callback of \<^verbatim>\<open>products.forEach\<close>: build one \<^verbatim>\<open>Product\<close> from the document's id and
  four of its fields, and push it.\<close>

definition product_of :: "query_document_snapshot \<Rightarrow> Product" where
  "product_of d =
     Product (doc_id d)
       (map_of (data d) ''name'')
       (map_of (data d) ''price'')
       (map_of (data d) ''retailer'')
       (map_of (data d) ''amountInStock'')"

definition push_product :: "Product list \<Rightarrow> query_document_snapshot \<Rightarrow> Product list" where
  "push_product productArray d = (let product = product_of d in productArray @ [product])"

definition getProducts :: "'s firestore \<Rightarrow> request \<Rightarrow> ('s, unit) io" where
  "getProducts fs req =
     try_catch
       (and_then (await (getDocs fs (collection ''products''))) (\<lambda>products.
        if empty products then send 400 (Text ''No Products found'')
        else send 200 (Array (foldl push_product [] products))))
       (\<lambda>error. send 400 (Text (message error)))"

definition getProduct :: "'s firestore \<Rightarrow> request \<Rightarrow> ('s, unit) io" where
  "getProduct fs req =
     try_catch
       (let id = params_id req in
        and_then (sync (doc fs ''products'' id)) (\<lambda>product.
        and_then (await (getDoc fs product)) (\<lambda>d.
        if exists_snapshot d then send 200 (Object (the d))
        else send 404 (Text ''product not found''))))
       (\<lambda>error. send 400 (Text (message error)))"

definition updateProduct :: "'s firestore \<Rightarrow> request \<Rightarrow> ('s, unit) io" where
  "updateProduct fs req =
     try_catch
       (let id = params_id req; data = body req in
        and_then (sync (doc fs ''products'' id)) (\<lambda>product.
        and_then (await (updateDoc fs product data)) (\<lambda>_.
        send 200 (Text ''product updated successfully''))))
       (\<lambda>error. send 400 (Text (message error)))"

definition deleteProduct :: "'s firestore \<Rightarrow> request \<Rightarrow> ('s, unit) io" where
  "deleteProduct fs req =
     try_catch
       (let id = params_id req in
        and_then (sync (doc fs ''products'' id)) (\<lambda>product.
        and_then (await (deleteDoc fs product)) (\<lambda>_.
        send 200 (Text ''product deleted successfully''))))
       (\<lambda>error. send 400 (Text (message error)))"

section \<open>Two instances of the store interface\<close>

text \<open>
  Modelled from the spec: the document store as the capability the spec describes (put,
  get, get-all, update-merge, delete, keyed by collection name and document id). Documents
  are kept in insertion order, each with its collection and id. Put assigns an id no
  document has yet; update creates or merges; delete of an absent id succeeds. A document
  is an object, so a body that is not an object is refused, and so is an id that is empty
  or holds a path separator.
\<close>

type_synonym memory = "(string \<times> string \<times> fields) list"

definition fresh_id :: "memory \<Rightarrow> string" where
  "fresh_id s = replicate (Suc (foldr (\<lambda>(c, i, d) n. max (length i) n) s 0)) CHR ''p''"

definition merge_fields :: "fields \<Rightarrow> fields \<Rightarrow> fields" where
  "merge_fields old new = filter (\<lambda>(k, v). k \<notin> set (map fst new)) old @ new"

definition memory_doc :: "string \<Rightarrow> string \<Rightarrow> error + document_ref" where
  "memory_doc c i =
     (if i = [] \<or> CHR ''/'' \<in> set i then Inl (Error ''Invalid document reference'')
      else Inr (DocumentRef c i))"

fun memory_addDoc :: "collection_ref \<Rightarrow> json \<Rightarrow> (memory, document_ref) store_call" where
  "memory_addDoc (collection c) (JObj fs) s =
     (Inr (DocumentRef c (fresh_id s)), s @ [(c, fresh_id s, fs)])"
| "memory_addDoc (collection c) _ s = (Inl (Error ''Data must be an object''), s)"

fun memory_lookup :: "memory \<Rightarrow> string \<Rightarrow> string \<Rightarrow> fields option" where
  "memory_lookup [] c i = None"
| "memory_lookup ((c', i', d) # s) c i =
     (if c' = c \<and> i' = i then Some d else memory_lookup s c i)"

fun memory_getDoc :: "document_ref \<Rightarrow> (memory, document_snapshot) store_call" where
  "memory_getDoc (DocumentRef c i) s = (Inr (memory_lookup s c i), s)"

fun memory_getDocs :: "collection_ref \<Rightarrow> (memory, query_snapshot) store_call" where
  "memory_getDocs (collection c) s =
     (Inr (map (\<lambda>(c', i, d). QueryDocumentSnapshot i d) (filter (\<lambda>(c', i, d). c' = c) s)), s)"

fun memory_merge :: "memory \<Rightarrow> string \<Rightarrow> string \<Rightarrow> fields \<Rightarrow> memory" where
  "memory_merge [] c i fs = [(c, i, fs)]"
| "memory_merge ((c', i', d) # s) c i fs =
     (if c' = c \<and> i' = i then (c', i', merge_fields d fs) # s
      else (c', i', d) # memory_merge s c i fs)"

fun memory_updateDoc :: "document_ref \<Rightarrow> json \<Rightarrow> (memory, unit) store_call" where
  "memory_updateDoc (DocumentRef c i) (JObj fs) s = (Inr (), memory_merge s c i fs)"
| "memory_updateDoc (DocumentRef c i) _ s = (Inl (Error ''Data must be an object''), s)"

fun memory_deleteDoc :: "document_ref \<Rightarrow> (memory, unit) store_call" where
  "memory_deleteDoc (DocumentRef c i) s =
     (Inr (), filter (\<lambda>(c', i', d). \<not> (c' = c \<and> i' = i)) s)"

definition memory_firestore :: "memory firestore" where
  "memory_firestore =
     \<lparr>doc = memory_doc, addDoc = memory_addDoc, getDoc = memory_getDoc,
      getDocs = memory_getDocs, updateDoc = memory_updateDoc, deleteDoc = memory_deleteDoc\<rparr>"

text \<open>
  A store that cannot be reached: references are still built locally, and every call that
  needs the store throws.
\<close>

definition offline :: error where
  "offline = Error ''Failed to reach the store: the client is offline''"

definition unreachable_firestore :: "unit firestore" where
  "unreachable_firestore =
     \<lparr>doc = (\<lambda>c i. Inr (DocumentRef c i)),
      addDoc = (\<lambda>c d s. (Inl offline, s)),
      getDoc = (\<lambda>r s. (Inl offline, s)),
      getDocs = (\<lambda>c s. (Inl offline, s)),
      updateDoc = (\<lambda>r d s. (Inl offline, s)),
      deleteDoc = (\<lambda>r s. (Inl offline, s))\<rparr>"

section \<open>Running a computation\<close>

lemmas io_defs = await_def sync_def and_then_def try_catch_def send_def

lemma memory_firestore_sel [simp]:
  "doc memory_firestore = memory_doc"
  "addDoc memory_firestore = memory_addDoc"
  "getDoc memory_firestore = memory_getDoc"
  "getDocs memory_firestore = memory_getDocs"
  "updateDoc memory_firestore = memory_updateDoc"
  "deleteDoc memory_firestore = memory_deleteDoc"
  by (simp_all add: memory_firestore_def)

lemma unreachable_firestore_sel [simp]:
  "doc unreachable_firestore = (\<lambda>c i. Inr (DocumentRef c i))"
  "addDoc unreachable_firestore = (\<lambda>c d s. (Inl offline, s))"
  "getDoc unreachable_firestore = (\<lambda>r s. (Inl offline, s))"
  "getDocs unreachable_firestore = (\<lambda>c s. (Inl offline, s))"
  "updateDoc unreachable_firestore = (\<lambda>r d s. (Inl offline, s))"
  "deleteDoc unreachable_firestore = (\<lambda>r s. (Inl offline, s))"
  by (simp_all add: unreachable_firestore_def)

text \<open>Each handler in one equation: what it sends and the store state it leaves, by the
  outcome of the calls it makes.\<close>

lemma createProduct_run:
  "createProduct fs req w =
     (case addDoc fs (collection ''products'') (body req) (db w) of
        (Inl e, s') \<Rightarrow>
          (Inr (), \<lparr>db = s', res = res w @ [\<lparr>status = 400, sent = Text (message e)\<rparr>]\<rparr>)
      | (Inr r, s') \<Rightarrow>
          (Inr (), \<lparr>db = s', res = res w @ [\<lparr>status = 200, sent = Text ''product created successfully''\<rparr>]\<rparr>))"
  by (simp add: createProduct_def io_defs split: prod.splits sum.splits)

lemma foldl_push_product: "foldl push_product acc ds = acc @ map product_of ds"
  by (induction ds arbitrary: acc) (simp_all add: push_product_def)

lemma getProducts_run:
  "getProducts fs req w =
     (case getDocs fs (collection ''products'') (db w) of
        (Inl e, s') \<Rightarrow>
          (Inr (), \<lparr>db = s', res = res w @ [\<lparr>status = 400, sent = Text (message e)\<rparr>]\<rparr>)
      | (Inr products, s') \<Rightarrow>
          (if products = []
           then (Inr (), \<lparr>db = s', res = res w @ [\<lparr>status = 400, sent = Text ''No Products found''\<rparr>]\<rparr>)
           else (Inr (), \<lparr>db = s', res = res w @ [\<lparr>status = 200, sent = Array (map product_of products)\<rparr>]\<rparr>)))"
  by (simp add: getProducts_def io_defs empty_def foldl_push_product split: prod.splits sum.splits)

lemma getProduct_run:
  "getProduct fs req w =
     (case doc fs ''products'' (params_id req) of
        Inl e \<Rightarrow>
          (Inr (), \<lparr>db = db w, res = res w @ [\<lparr>status = 400, sent = Text (message e)\<rparr>]\<rparr>)
      | Inr r \<Rightarrow>
          (case getDoc fs r (db w) of
             (Inl e, s') \<Rightarrow>
               (Inr (), \<lparr>db = s', res = res w @ [\<lparr>status = 400, sent = Text (message e)\<rparr>]\<rparr>)
           | (Inr None, s') \<Rightarrow>
               (Inr (), \<lparr>db = s', res = res w @ [\<lparr>status = 404, sent = Text ''product not found''\<rparr>]\<rparr>)
           | (Inr (Some d), s') \<Rightarrow>
               (Inr (), \<lparr>db = s', res = res w @ [\<lparr>status = 200, sent = Object d\<rparr>]\<rparr>)))"
  by (simp add: getProduct_def io_defs exists_snapshot_def
           split: prod.splits sum.splits option.splits)

lemma updateProduct_run:
  "updateProduct fs req w =
     (case doc fs ''products'' (params_id req) of
        Inl e \<Rightarrow>
          (Inr (), \<lparr>db = db w, res = res w @ [\<lparr>status = 400, sent = Text (message e)\<rparr>]\<rparr>)
      | Inr r \<Rightarrow>
          (case updateDoc fs r (body req) (db w) of
             (Inl e, s') \<Rightarrow>
               (Inr (), \<lparr>db = s', res = res w @ [\<lparr>status = 400, sent = Text (message e)\<rparr>]\<rparr>)
           | (Inr u, s') \<Rightarrow>
               (Inr (), \<lparr>db = s', res = res w @ [\<lparr>status = 200, sent = Text ''product updated successfully''\<rparr>]\<rparr>)))"
  by (simp add: updateProduct_def io_defs split: prod.splits sum.splits)

lemma deleteProduct_run:
  "deleteProduct fs req w =
     (case doc fs ''products'' (params_id req) of
        Inl e \<Rightarrow>
          (Inr (), \<lparr>db = db w, res = res w @ [\<lparr>status = 400, sent = Text (message e)\<rparr>]\<rparr>)
      | Inr r \<Rightarrow>
          (case deleteDoc fs r (db w) of
             (Inl e, s') \<Rightarrow>
               (Inr (), \<lparr>db = s', res = res w @ [\<lparr>status = 400, sent = Text (message e)\<rparr>]\<rparr>)
           | (Inr u, s') \<Rightarrow>
               (Inr (), \<lparr>db = s', res = res w @ [\<lparr>status = 200, sent = Text ''product deleted successfully''\<rparr>]\<rparr>)))"
  by (simp add: deleteProduct_def io_defs split: prod.splits sum.splits)

text \<open>The fields of a serialised \<open>Product\<close>, and the merge of the in-memory store.\<close>

lemma map_of_toJSON:
  "map_of (toJSON (Product i n p r a)) k =
     (if k = ''id'' then Some (JStr i)
      else if k = ''name'' then n
      else if k = ''price'' then p
      else if k = ''retailer'' then r
      else if k = ''amountInStock'' then a
      else None)"
  by (cases n; cases p; cases r; cases a) (simp_all add: defined_props_def map_filter_simps)

lemma map_of_filter_keys:
  "map_of (filter (\<lambda>(k, v). k \<notin> S) xs) k = (if k \<in> S then None else map_of xs k)"
  by (induction xs) auto

lemma map_of_merge_fields: "map_of (merge_fields old new) = map_of old ++ map_of new"
proof
  fix k
  show "map_of (merge_fields old new) k = (map_of old ++ map_of new) k"
  proof (cases "map_of new k")
    case None
    then have "k \<notin> set (map fst new)" by (simp add: map_of_eq_None_iff)
    with None show ?thesis
      by (simp add: merge_fields_def map_of_filter_keys map_add_def split: option.splits)
  next
    case (Some v)
    then have "k \<in> set (map fst new)" by (metis map_of_eq_None_iff option.distinct(1) set_map)
    with Some show ?thesis
      by (simp add: merge_fields_def map_of_filter_keys map_add_def)
  qed
qed

lemma memory_lookup_merge:
  "memory_lookup (memory_merge s c i fs) c i =
     Some (case memory_lookup s c i of None \<Rightarrow> fs | Some d \<Rightarrow> merge_fields d fs)"
  by (induction s c i fs rule: memory_merge.induct) simp_all

section \<open>List on an empty collection\<close>

text \<open>
  C1 (as amended). Whenever the store returns an empty snapshot for the products
  collection, the list operation sends exactly one response: status 400 with the text
  "No Products found", capitalised as here.
\<close>

theorem getProducts_empty:
  assumes "getDocs fs (collection ''products'') (db w) = (Inr [], s')"
  shows "getProducts fs req w =
           (Inr (), \<lparr>db = s', res = res w @ [\<lparr>status = 400, sent = Text ''No Products found''\<rparr>]\<rparr>)"
  using assms by (simp add: getProducts_def io_defs empty_def)

theorem getProducts_empty_witness:
  "getDocs memory_firestore (collection ''products'') (db \<lparr>db = [], res = []\<rparr>) = (Inr [], [])
   \<and> getProducts memory_firestore \<lparr>params_id = [], body = JNull\<rparr> \<lparr>db = [], res = []\<rparr> =
       (Inr (), \<lparr>db = [], res = [\<lparr>status = 400, sent = Text ''No Products found''\<rparr>]\<rparr>)"
proof -
  have h: "getDocs memory_firestore (collection ''products'') (db \<lparr>db = [], res = []\<rparr>) = (Inr [], [])"
    by simp
  show ?thesis
    using h getProducts_empty [OF h, of "\<lparr>params_id = [], body = JNull\<rparr>"] by simp
qed

text \<open>
  C1 as the spec words it fails: on the empty in-memory store the body sent is
  "No Products found", which is not the string "no products found".
\<close>

theorem getProducts_empty_body_counterexample:
  "res (snd (getProducts memory_firestore \<lparr>params_id = [], body = JNull\<rparr> \<lparr>db = [], res = []\<rparr>)) =
     [\<lparr>status = 400, sent = Text ''No Products found''\<rparr>]
   \<and> res (snd (getProducts memory_firestore \<lparr>params_id = [], body = JNull\<rparr> \<lparr>db = [], res = []\<rparr>)) \<noteq>
     [\<lparr>status = 400, sent = Text ''no products found''\<rparr>]"
  by (simp add: getProducts_def io_defs empty_def)

section \<open>Failures of the store call\<close>

text \<open>
  C2. In each of the five operations, a failure \<open>e\<close> thrown by the operation's store call
  (\<^verbatim>\<open>addDoc\<close>, \<^verbatim>\<open>getDocs\<close>, \<^verbatim>\<open>getDoc\<close>, \<^verbatim>\<open>updateDoc\<close>, \<^verbatim>\<open>deleteDoc\<close>) is answered with status 400
  and the text \<open>message e\<close>, whatever \<open>e\<close> is; and no operation ever throws itself: each
  returns normally for every store, request and starting state.
\<close>

theorem store_failure_is_400:
  "(addDoc fs (collection ''products'') (body req) (db w) = (Inl e, s') \<longrightarrow>
      createProduct fs req w =
        (Inr (), \<lparr>db = s', res = res w @ [\<lparr>status = 400, sent = Text (message e)\<rparr>]\<rparr>))
   \<and> (getDocs fs (collection ''products'') (db w) = (Inl e, s') \<longrightarrow>
      getProducts fs req w =
        (Inr (), \<lparr>db = s', res = res w @ [\<lparr>status = 400, sent = Text (message e)\<rparr>]\<rparr>))
   \<and> (doc fs ''products'' (params_id req) = Inr r \<and> getDoc fs r (db w) = (Inl e, s') \<longrightarrow>
      getProduct fs req w =
        (Inr (), \<lparr>db = s', res = res w @ [\<lparr>status = 400, sent = Text (message e)\<rparr>]\<rparr>))
   \<and> (doc fs ''products'' (params_id req) = Inr r \<and>
        updateDoc fs r (body req) (db w) = (Inl e, s') \<longrightarrow>
      updateProduct fs req w =
        (Inr (), \<lparr>db = s', res = res w @ [\<lparr>status = 400, sent = Text (message e)\<rparr>]\<rparr>))
   \<and> (doc fs ''products'' (params_id req) = Inr r \<and> deleteDoc fs r (db w) = (Inl e, s') \<longrightarrow>
      deleteProduct fs req w =
        (Inr (), \<lparr>db = s', res = res w @ [\<lparr>status = 400, sent = Text (message e)\<rparr>]\<rparr>))
   \<and> fst (createProduct fs req w) = Inr ()
   \<and> fst (getProducts fs req w) = Inr ()
   \<and> fst (getProduct fs req w) = Inr ()
   \<and> fst (updateProduct fs req w) = Inr ()
   \<and> fst (deleteProduct fs req w) = Inr ()"
proof -
  have create: "addDoc fs (collection ''products'') (body req) (db w) = (Inl e, s') \<longrightarrow>
      createProduct fs req w =
        (Inr (), \<lparr>db = s', res = res w @ [\<lparr>status = 400, sent = Text (message e)\<rparr>]\<rparr>)"
    by (simp add: createProduct_run)
  have list: "getDocs fs (collection ''products'') (db w) = (Inl e, s') \<longrightarrow>
      getProducts fs req w =
        (Inr (), \<lparr>db = s', res = res w @ [\<lparr>status = 400, sent = Text (message e)\<rparr>]\<rparr>)"
    by (simp add: getProducts_run)
  have get: "doc fs ''products'' (params_id req) = Inr r \<and> getDoc fs r (db w) = (Inl e, s') \<longrightarrow>
      getProduct fs req w =
        (Inr (), \<lparr>db = s', res = res w @ [\<lparr>status = 400, sent = Text (message e)\<rparr>]\<rparr>)"
    by (simp add: getProduct_run)
  have update: "doc fs ''products'' (params_id req) = Inr r \<and>
        updateDoc fs r (body req) (db w) = (Inl e, s') \<longrightarrow>
      updateProduct fs req w =
        (Inr (), \<lparr>db = s', res = res w @ [\<lparr>status = 400, sent = Text (message e)\<rparr>]\<rparr>)"
    by (simp add: updateProduct_run)
  have delete: "doc fs ''products'' (params_id req) = Inr r \<and> deleteDoc fs r (db w) = (Inl e, s') \<longrightarrow>
      deleteProduct fs req w =
        (Inr (), \<lparr>db = s', res = res w @ [\<lparr>status = 400, sent = Text (message e)\<rparr>]\<rparr>)"
    by (simp add: deleteProduct_run)
  have total: "fst (createProduct fs req w) = Inr ()" "fst (getProducts fs req w) = Inr ()"
    "fst (getProduct fs req w) = Inr ()" "fst (updateProduct fs req w) = Inr ()"
    "fst (deleteProduct fs req w) = Inr ()"
    by (simp_all add: createProduct_run getProducts_run getProduct_run updateProduct_run
          deleteProduct_run split: prod.splits sum.splits option.splits)
  from create list get update delete total show ?thesis by blast
qed

theorem store_failure_is_400_witness:
  "createProduct unreachable_firestore \<lparr>params_id = ''abc'', body = JObj []\<rparr> \<lparr>db = (), res = []\<rparr> =
     (Inr (), \<lparr>db = (), res = [\<lparr>status = 400, sent = Text (message offline)\<rparr>]\<rparr>)
   \<and> getProducts unreachable_firestore \<lparr>params_id = ''abc'', body = JObj []\<rparr> \<lparr>db = (), res = []\<rparr> =
     (Inr (), \<lparr>db = (), res = [\<lparr>status = 400, sent = Text (message offline)\<rparr>]\<rparr>)
   \<and> getProduct unreachable_firestore \<lparr>params_id = ''abc'', body = JObj []\<rparr> \<lparr>db = (), res = []\<rparr> =
     (Inr (), \<lparr>db = (), res = [\<lparr>status = 400, sent = Text (message offline)\<rparr>]\<rparr>)
   \<and> updateProduct unreachable_firestore \<lparr>params_id = ''abc'', body = JObj []\<rparr> \<lparr>db = (), res = []\<rparr> =
     (Inr (), \<lparr>db = (), res = [\<lparr>status = 400, sent = Text (message offline)\<rparr>]\<rparr>)
   \<and> deleteProduct unreachable_firestore \<lparr>params_id = ''abc'', body = JObj []\<rparr> \<lparr>db = (), res = []\<rparr> =
     (Inr (), \<lparr>db = (), res = [\<lparr>status = 400, sent = Text (message offline)\<rparr>]\<rparr>)"
  using store_failure_is_400 [of unreachable_firestore
      "\<lparr>params_id = ''abc'', body = JObj []\<rparr>" "\<lparr>db = (), res = []\<rparr>" offline "()"
      "DocumentRef ''products'' ''abc''"]
  by simp

section \<open>Get one\<close>

text \<open>
  C3. When the store reports that the document exists, get-one answers 200 with the
  document's fields as the store gave them (an object, not a \<open>Product\<close>); when the store
  reports that it does not exist, get-one answers 404 with the text "product not found".
\<close>

theorem getProduct_found_or_absent:
  assumes "doc fs ''products'' (params_id req) = Inr r"
  shows "(getDoc fs r (db w) = (Inr (Some d), s') \<longrightarrow>
            getProduct fs req w =
              (Inr (), \<lparr>db = s', res = res w @ [\<lparr>status = 200, sent = Object d\<rparr>]\<rparr>))
       \<and> (getDoc fs r (db w) = (Inr None, s') \<longrightarrow>
            getProduct fs req w =
              (Inr (), \<lparr>db = s',
                 res = res w @ [\<lparr>status = 404, sent = Text ''product not found''\<rparr>]\<rparr>))"
  using assms by (simp add: getProduct_run)

theorem getProduct_found_or_absent_witness:
  "getProduct memory_firestore \<lparr>params_id = ''p'', body = JNull\<rparr>
     \<lparr>db = [(''products'', ''p'', [(''name'', JStr ''Widget''), (''colour'', JStr ''red'')])],
      res = []\<rparr> =
     (Inr (),
      \<lparr>db = [(''products'', ''p'', [(''name'', JStr ''Widget''), (''colour'', JStr ''red'')])],
       res = [\<lparr>status = 200,
               sent = Object [(''name'', JStr ''Widget''), (''colour'', JStr ''red'')]\<rparr>]\<rparr>)
   \<and> getProduct memory_firestore \<lparr>params_id = ''doesnotexist'', body = JNull\<rparr>
     \<lparr>db = [(''products'', ''p'', [(''name'', JStr ''Widget''), (''colour'', JStr ''red'')])],
      res = []\<rparr> =
     (Inr (),
      \<lparr>db = [(''products'', ''p'', [(''name'', JStr ''Widget''), (''colour'', JStr ''red'')])],
       res = [\<lparr>status = 404, sent = Text ''product not found''\<rparr>]\<rparr>)"
proof -
  let ?s = "[(''products'', ''p'', [(''name'', JStr ''Widget''), (''colour'', JStr ''red'')])]"
  have p: "doc memory_firestore ''products'' (params_id \<lparr>params_id = ''p'', body = JNull\<rparr>) =
             Inr (DocumentRef ''products'' ''p'')"
    by (simp add: memory_doc_def)
  have q: "doc memory_firestore ''products''
             (params_id \<lparr>params_id = ''doesnotexist'', body = JNull\<rparr>) =
             Inr (DocumentRef ''products'' ''doesnotexist'')"
    by (simp add: memory_doc_def)
  show ?thesis
    using getProduct_found_or_absent [OF p, of "\<lparr>db = ?s, res = []\<rparr>"
            "[(''name'', JStr ''Widget''), (''colour'', JStr ''red'')]" ?s]
          getProduct_found_or_absent [OF q, of "\<lparr>db = ?s, res = []\<rparr>" "[]" ?s]
    by simp
qed

section \<open>List on a collection that is not empty\<close>

text \<open>
  C9. When the store returns a snapshot that is not empty, the list operation answers 200
  with an array holding one \<open>Product\<close> for each document of the snapshot, built from the
  document's id and its fields name, price, retailer and amountInStock, in the order in
  which the snapshot yields the documents.
\<close>

theorem getProducts_nonempty:
  assumes "getDocs fs (collection ''products'') (db w) = (Inr products, s')"
      and "products \<noteq> []"
  shows "getProducts fs req w =
           (Inr (),
            \<lparr>db = s',
             res = res w @
               [\<lparr>status = 200,
                 sent = Array (map (\<lambda>d. Product (doc_id d)
                                          (map_of (data d) ''name'')
                                          (map_of (data d) ''price'')
                                          (map_of (data d) ''retailer'')
                                          (map_of (data d) ''amountInStock'')) products)\<rparr>]\<rparr>)"
proof -
  have "product_of = (\<lambda>d. Product (doc_id d) (map_of (data d) ''name'')
          (map_of (data d) ''price'') (map_of (data d) ''retailer'')
          (map_of (data d) ''amountInStock''))"
    by (rule ext) (simp add: product_of_def)
  with assms show ?thesis by (simp add: getProducts_run)
qed

theorem getProducts_nonempty_witness:
  "getProducts memory_firestore \<lparr>params_id = [], body = JNull\<rparr>
     \<lparr>db = [(''products'', ''b'', [(''name'', JStr ''Widget''), (''price'', JNum 5)]),
            (''products'', ''a'', [(''retailer'', JStr ''Acme''), (''amountInStock'', JNum 10)])],
      res = []\<rparr> =
     (Inr (),
      \<lparr>db = [(''products'', ''b'', [(''name'', JStr ''Widget''), (''price'', JNum 5)]),
             (''products'', ''a'', [(''retailer'', JStr ''Acme''), (''amountInStock'', JNum 10)])],
       res = [\<lparr>status = 200,
               sent = Array [Product ''b'' (Some (JStr ''Widget'')) (Some (JNum 5)) None None,
                             Product ''a'' None None (Some (JStr ''Acme'')) (Some (JNum 10))]\<rparr>]\<rparr>)"
proof -
  let ?s = "[(''products'', ''b'', [(''name'', JStr ''Widget''), (''price'', JNum 5)]),
             (''products'', ''a'', [(''retailer'', JStr ''Acme''), (''amountInStock'', JNum 10)])]"
  let ?ds = "[QueryDocumentSnapshot ''b'' [(''name'', JStr ''Widget''), (''price'', JNum 5)],
              QueryDocumentSnapshot ''a''
                [(''retailer'', JStr ''Acme''), (''amountInStock'', JNum 10)]]"
  have h: "getDocs memory_firestore (collection ''products'') (db \<lparr>db = ?s, res = []\<rparr>) =
             (Inr ?ds, ?s)"
    by simp
  have n: "?ds \<noteq> []" by simp
  show ?thesis
    using getProducts_nonempty [OF h n, of "\<lparr>params_id = [], body = JNull\<rparr>"] by simp
qed

section \<open>Create, then list\<close>

text \<open>
  C4. Let \<open>P\<close> be an object carrying only product fields (name, price, retailer,
  amountInStock). If the store accepts \<open>P\<close> and hands back a reference with id \<open>i\<close>, and
  on the next read of the collection yields the new document, then create answers 200
  "product created successfully", and the following list answers 200 with an array that
  holds an entry whose id is the store's \<open>i\<close> (the request's own path parameter plays no
  part) and whose other fields are exactly those of \<open>P\<close>.
\<close>

theorem create_then_list:
  assumes "set (map fst P) \<subseteq> {''name'', ''price'', ''retailer'', ''amountInStock''}"
      and "addDoc fs (collection ''products'') (JObj P) (db w) = (Inr (DocumentRef c i), s1)"
      and "getDocs fs (collection ''products'') s1 = (Inr products, s2)"
      and "QueryDocumentSnapshot i P \<in> set products"
  shows "createProduct fs \<lparr>params_id = x, body = JObj P\<rparr> w =
           (Inr (), \<lparr>db = s1,
              res = res w @ [\<lparr>status = 200, sent = Text ''product created successfully''\<rparr>]\<rparr>)
       \<and> getProducts fs req \<lparr>db = s1, res = []\<rparr> =
           (Inr (), \<lparr>db = s2, res = [\<lparr>status = 200, sent = Array (map product_of products)\<rparr>]\<rparr>)
       \<and> product_of (QueryDocumentSnapshot i P) \<in> set (map product_of products)
       \<and> map_of (toJSON (product_of (QueryDocumentSnapshot i P))) = (map_of P)(''id'' \<mapsto> JStr i)"
proof -
  have create: "createProduct fs \<lparr>params_id = x, body = JObj P\<rparr> w =
           (Inr (), \<lparr>db = s1,
              res = res w @ [\<lparr>status = 200, sent = Text ''product created successfully''\<rparr>]\<rparr>)"
    using assms(2) by (simp add: createProduct_run)
  have nonempty: "products \<noteq> []"
    using assms(4) by auto
  have list: "getProducts fs req \<lparr>db = s1, res = []\<rparr> =
           (Inr (), \<lparr>db = s2, res = [\<lparr>status = 200, sent = Array (map product_of products)\<rparr>]\<rparr>)"
    using assms(3) nonempty by (simp add: getProducts_run)
  have entry: "product_of (QueryDocumentSnapshot i P) \<in> set (map product_of products)"
    using assms(4) by simp
  have same: "map_of (toJSON (product_of (QueryDocumentSnapshot i P))) = (map_of P)(''id'' \<mapsto> JStr i)"
  proof
    fix k
    have other: "map_of P k = None"
      if "k \<noteq> ''name''" "k \<noteq> ''price''" "k \<noteq> ''retailer''" "k \<noteq> ''amountInStock''"
    proof -
      from that assms(1) have "k \<notin> set (map fst P)" by auto
      then show ?thesis by (simp add: map_of_eq_None_iff)
    qed
    show "map_of (toJSON (product_of (QueryDocumentSnapshot i P))) k =
            ((map_of P)(''id'' \<mapsto> JStr i)) k"
      using other by (simp add: product_of_def map_of_toJSON del: toJSON.simps)
  qed
  from create list entry same show ?thesis by simp
qed

theorem create_then_list_witness:
  "createProduct memory_firestore
     \<lparr>params_id = ''mine'',
      body = JObj [(''name'', JStr ''Widget''), (''price'', JNum (999 / 100)),
                   (''retailer'', JStr ''Acme''), (''amountInStock'', JNum 10)]\<rparr>
     \<lparr>db = [], res = []\<rparr> =
     (Inr (),
      \<lparr>db = [(''products'', ''p'',
               [(''name'', JStr ''Widget''), (''price'', JNum (999 / 100)),
                (''retailer'', JStr ''Acme''), (''amountInStock'', JNum 10)])],
       res = [\<lparr>status = 200, sent = Text ''product created successfully''\<rparr>]\<rparr>)
   \<and> getProducts memory_firestore \<lparr>params_id = [], body = JNull\<rparr>
     \<lparr>db = [(''products'', ''p'',
              [(''name'', JStr ''Widget''), (''price'', JNum (999 / 100)),
               (''retailer'', JStr ''Acme''), (''amountInStock'', JNum 10)])],
      res = []\<rparr> =
     (Inr (),
      \<lparr>db = [(''products'', ''p'',
               [(''name'', JStr ''Widget''), (''price'', JNum (999 / 100)),
                (''retailer'', JStr ''Acme''), (''amountInStock'', JNum 10)])],
       res = [\<lparr>status = 200,
               sent = Array [Product ''p'' (Some (JStr ''Widget'')) (Some (JNum (999 / 100)))
                               (Some (JStr ''Acme'')) (Some (JNum 10))]\<rparr>]\<rparr>)
   \<and> toJSON (Product ''p'' (Some (JStr ''Widget'')) (Some (JNum (999 / 100)))
               (Some (JStr ''Acme'')) (Some (JNum 10))) =
     [(''id'', JStr ''p''), (''name'', JStr ''Widget''), (''price'', JNum (999 / 100)),
      (''retailer'', JStr ''Acme''), (''amountInStock'', JNum 10)]"
proof -
  let ?P = "[(''name'', JStr ''Widget''), (''price'', JNum (999 / 100)),
             (''retailer'', JStr ''Acme''), (''amountInStock'', JNum 10)]"
  let ?s1 = "[(''products'', ''p'', ?P)]"
  have names: "set (map fst ?P) \<subseteq> {''name'', ''price'', ''retailer'', ''amountInStock''}"
    by simp
  have put: "addDoc memory_firestore (collection ''products'') (JObj ?P)
               (db \<lparr>db = [], res = []\<rparr>) = (Inr (DocumentRef ''products'' ''p''), ?s1)"
    by (simp add: fresh_id_def)
  have all: "getDocs memory_firestore (collection ''products'') ?s1 =
               (Inr [QueryDocumentSnapshot ''p'' ?P], ?s1)"
    by simp
  have listed: "QueryDocumentSnapshot ''p'' ?P \<in> set [QueryDocumentSnapshot ''p'' ?P]"
    by simp
  show ?thesis
    using create_then_list [OF names put all listed, of "''mine''"
            "\<lparr>params_id = [], body = JNull\<rparr>"]
    by (simp add: product_of_def defined_props_def map_filter_simps)
qed

section \<open>Update, then get one\<close>

text \<open>
  C5. On the store modelled from the spec: for every store state, every id \<open>i\<close> under which
  a document with fields \<open>old\<close> is stored, and every object \<open>partial\<close>, update answers 200
  "product updated successfully" and the following get-one answers 200 with the merged
  document. In what get-one returns, each field named in \<open>partial\<close> has the value \<open>partial\<close>
  gives it, and each field that \<open>partial\<close> does not name has the value it had in \<open>old\<close>.
\<close>

theorem update_then_get:
  assumes "doc memory_firestore ''products'' i = Inr r"
      and "getDoc memory_firestore r s = (Inr (Some old), s)"
  shows "updateProduct memory_firestore \<lparr>params_id = i, body = JObj partial\<rparr> \<lparr>db = s, res = rs\<rparr> =
           (Inr (), \<lparr>db = memory_merge s ''products'' i partial,
              res = rs @ [\<lparr>status = 200, sent = Text ''product updated successfully''\<rparr>]\<rparr>)
       \<and> getProduct memory_firestore \<lparr>params_id = i, body = b\<rparr>
           \<lparr>db = memory_merge s ''products'' i partial, res = []\<rparr> =
           (Inr (), \<lparr>db = memory_merge s ''products'' i partial,
              res = [\<lparr>status = 200, sent = Object (merge_fields old partial)\<rparr>]\<rparr>)
       \<and> (\<forall>k \<in> set (map fst partial). map_of (merge_fields old partial) k = map_of partial k)
       \<and> (\<forall>k. k \<notin> set (map fst partial) \<longrightarrow>
             map_of (merge_fields old partial) k = map_of old k)"
proof -
  have ref: "memory_doc ''products'' i = Inr (DocumentRef ''products'' i)"
    using assms(1) by (simp add: memory_doc_def split: if_splits)
  then have r: "r = DocumentRef ''products'' i"
    using assms(1) by simp
  have stored: "memory_lookup s ''products'' i = Some old"
    using assms(2) by (simp add: r)
  have update: "updateProduct memory_firestore \<lparr>params_id = i, body = JObj partial\<rparr>
           \<lparr>db = s, res = rs\<rparr> =
           (Inr (), \<lparr>db = memory_merge s ''products'' i partial,
              res = rs @ [\<lparr>status = 200, sent = Text ''product updated successfully''\<rparr>]\<rparr>)"
    by (simp add: updateProduct_run ref)
  have get: "getProduct memory_firestore \<lparr>params_id = i, body = b\<rparr>
           \<lparr>db = memory_merge s ''products'' i partial, res = []\<rparr> =
           (Inr (), \<lparr>db = memory_merge s ''products'' i partial,
              res = [\<lparr>status = 200, sent = Object (merge_fields old partial)\<rparr>]\<rparr>)"
    by (simp add: getProduct_run ref memory_lookup_merge stored)
  have updated: "\<forall>k \<in> set (map fst partial).
                   map_of (merge_fields old partial) k = map_of partial k"
  proof
    fix k
    assume "k \<in> set (map fst partial)"
    then obtain v where "map_of partial k = Some v"
      by (metis map_of_eq_None_iff not_None_eq set_map)
    then show "map_of (merge_fields old partial) k = map_of partial k"
      by (simp add: map_of_merge_fields map_add_def)
  qed
  have untouched: "\<forall>k. k \<notin> set (map fst partial) \<longrightarrow>
                     map_of (merge_fields old partial) k = map_of old k"
  proof (intro allI impI)
    fix k
    assume "k \<notin> set (map fst partial)"
    then have "map_of partial k = None" by (simp add: map_of_eq_None_iff)
    then show "map_of (merge_fields old partial) k = map_of old k"
      by (simp add: map_of_merge_fields map_add_def)
  qed
  show ?thesis
    by (intro conjI; fact)
qed

theorem update_then_get_witness:
  "updateProduct memory_firestore \<lparr>params_id = ''p'', body = JObj [(''price'', JNum 7)]\<rparr>
     \<lparr>db = [(''products'', ''p'',
              [(''name'', JStr ''Widget''), (''price'', JNum 5), (''retailer'', JStr ''Acme'')])],
      res = []\<rparr> =
     (Inr (),
      \<lparr>db = [(''products'', ''p'',
               [(''name'', JStr ''Widget''), (''retailer'', JStr ''Acme''), (''price'', JNum 7)])],
       res = [\<lparr>status = 200, sent = Text ''product updated successfully''\<rparr>]\<rparr>)
   \<and> getProduct memory_firestore \<lparr>params_id = ''p'', body = JNull\<rparr>
     \<lparr>db = [(''products'', ''p'',
              [(''name'', JStr ''Widget''), (''retailer'', JStr ''Acme''), (''price'', JNum 7)])],
      res = []\<rparr> =
     (Inr (),
      \<lparr>db = [(''products'', ''p'',
               [(''name'', JStr ''Widget''), (''retailer'', JStr ''Acme''), (''price'', JNum 7)])],
       res = [\<lparr>status = 200,
               sent = Object [(''name'', JStr ''Widget''), (''retailer'', JStr ''Acme''),
                              (''price'', JNum 7)]\<rparr>]\<rparr>)"
proof -
  let ?old = "[(''name'', JStr ''Widget''), (''price'', JNum 5), (''retailer'', JStr ''Acme'')]"
  let ?s = "[(''products'', ''p'', ?old)]"
  have ref: "doc memory_firestore ''products'' ''p'' = Inr (DocumentRef ''products'' ''p'')"
    by (simp add: memory_doc_def)
  have stored: "getDoc memory_firestore (DocumentRef ''products'' ''p'') ?s =
                  (Inr (Some ?old), ?s)"
    by simp
  note both = update_then_get [OF ref stored, of "[(''price'', JNum 7)]" "[]" JNull]
  note update = both [THEN conjunct1]
  note get = both [THEN conjunct2, THEN conjunct1]
  show ?thesis
    using update get by (simp add: merge_fields_def)
qed

section \<open>Update and delete make no existence check\<close>

text \<open>
  C6. The update operation never reads before it writes: replacing the two read
  operations of the store by any others changes nothing in what update does. It never
  answers 404. Whenever the store's \<^verbatim>\<open>updateDoc\<close> returns normally, whether or not the
  document existed, update answers 200 "product updated successfully" and leaves the store
  as \<^verbatim>\<open>updateDoc\<close> left it.
\<close>

theorem updateProduct_no_existence_check:
  "updateProduct (fs\<lparr>getDoc := g, getDocs := gs\<rparr>) req w = updateProduct fs req w
   \<and> status (last (res (snd (updateProduct fs req w)))) \<noteq> 404
   \<and> (doc fs ''products'' (params_id req) = Inr r \<and>
        updateDoc fs r (body req) (db w) = (Inr (), s') \<longrightarrow>
      updateProduct fs req w =
        (Inr (), \<lparr>db = s',
           res = res w @ [\<lparr>status = 200, sent = Text ''product updated successfully''\<rparr>]\<rparr>))"
proof -
  have reads: "updateProduct (fs\<lparr>getDoc := g, getDocs := gs\<rparr>) req w = updateProduct fs req w"
    by (simp add: updateProduct_run split: sum.splits)
  have never_404: "status (last (res (snd (updateProduct fs req w)))) \<noteq> 404"
    by (simp add: updateProduct_run split: prod.splits sum.splits)
  have ok: "doc fs ''products'' (params_id req) = Inr r \<and>
        updateDoc fs r (body req) (db w) = (Inr (), s') \<longrightarrow>
      updateProduct fs req w =
        (Inr (), \<lparr>db = s',
           res = res w @ [\<lparr>status = 200, sent = Text ''product updated successfully''\<rparr>]\<rparr>)"
    by (simp add: updateProduct_run)
  from reads never_404 ok show ?thesis by blast
qed

theorem updateProduct_no_existence_check_witness:
  "getDoc memory_firestore (DocumentRef ''products'' ''doesnotexist'') [] = (Inr None, [])
   \<and> updateProduct memory_firestore
       \<lparr>params_id = ''doesnotexist'', body = JObj [(''price'', JNum 7)]\<rparr> \<lparr>db = [], res = []\<rparr> =
     (Inr (),
      \<lparr>db = [(''products'', ''doesnotexist'', [(''price'', JNum 7)])],
       res = [\<lparr>status = 200, sent = Text ''product updated successfully''\<rparr>]\<rparr>)"
  using updateProduct_no_existence_check [where fs = memory_firestore
      and g = "getDoc memory_firestore" and gs = "getDocs memory_firestore"
      and req = "\<lparr>params_id = ''doesnotexist'', body = JObj [(''price'', JNum 7)]\<rparr>"
      and w = "\<lparr>db = [], res = []\<rparr>" and r = "DocumentRef ''products'' ''doesnotexist''"
      and s' = "[(''products'', ''doesnotexist'', [(''price'', JNum 7)])]"]
  by (simp add: memory_doc_def)

text \<open>
  C8. The delete operation never reads before it deletes, and never answers 404. Whenever
  the store's \<^verbatim>\<open>deleteDoc\<close> returns normally, whether or not the document existed, delete
  answers 200 "product deleted successfully" and leaves the store as \<^verbatim>\<open>deleteDoc\<close> left it.
\<close>

theorem deleteProduct_no_existence_check:
  "deleteProduct (fs\<lparr>getDoc := g, getDocs := gs\<rparr>) req w = deleteProduct fs req w
   \<and> status (last (res (snd (deleteProduct fs req w)))) \<noteq> 404
   \<and> (doc fs ''products'' (params_id req) = Inr r \<and> deleteDoc fs r (db w) = (Inr (), s') \<longrightarrow>
      deleteProduct fs req w =
        (Inr (), \<lparr>db = s',
           res = res w @ [\<lparr>status = 200, sent = Text ''product deleted successfully''\<rparr>]\<rparr>))"
proof -
  have reads: "deleteProduct (fs\<lparr>getDoc := g, getDocs := gs\<rparr>) req w = deleteProduct fs req w"
    by (simp add: deleteProduct_run split: sum.splits)
  have never_404: "status (last (res (snd (deleteProduct fs req w)))) \<noteq> 404"
    by (simp add: deleteProduct_run split: prod.splits sum.splits)
  have ok: "doc fs ''products'' (params_id req) = Inr r \<and> deleteDoc fs r (db w) = (Inr (), s') \<longrightarrow>
      deleteProduct fs req w =
        (Inr (), \<lparr>db = s',
           res = res w @ [\<lparr>status = 200, sent = Text ''product deleted successfully''\<rparr>]\<rparr>)"
    by (simp add: deleteProduct_run)
  from reads never_404 ok show ?thesis by blast
qed

theorem deleteProduct_no_existence_check_witness:
  "getDoc memory_firestore (DocumentRef ''products'' ''doesnotexist'')
     [(''products'', ''p'', [(''name'', JStr ''Widget'')])] =
     (Inr None, [(''products'', ''p'', [(''name'', JStr ''Widget'')])])
   \<and> deleteProduct memory_firestore \<lparr>params_id = ''doesnotexist'', body = JNull\<rparr>
       \<lparr>db = [(''products'', ''p'', [(''name'', JStr ''Widget'')])], res = []\<rparr> =
     (Inr (),
      \<lparr>db = [(''products'', ''p'', [(''name'', JStr ''Widget'')])],
       res = [\<lparr>status = 200, sent = Text ''product deleted successfully''\<rparr>]\<rparr>)"
  using deleteProduct_no_existence_check [where fs = memory_firestore
      and g = "getDoc memory_firestore" and gs = "getDocs memory_firestore"
      and req = "\<lparr>params_id = ''doesnotexist'', body = JNull\<rparr>"
      and w = "\<lparr>db = [(''products'', ''p'', [(''name'', JStr ''Widget'')])], res = []\<rparr>"
      and r = "DocumentRef ''products'' ''doesnotexist''"
      and s' = "[(''products'', ''p'', [(''name'', JStr ''Widget'')])]"]
  by (simp add: memory_doc_def)

section \<open>Create makes no validation\<close>

text \<open>
  C7 (as amended). For every request body, of any shape, create hands the body to the
  store's \<^verbatim>\<open>addDoc\<close> as it is and leaves the store exactly as that call left it; the
  handler rejects nothing of its own, answering 400 only when the call itself threw.
  Whenever the call returns normally, create answers 200 "product created successfully";
  when the store refuses the body, create answers 400 with the store's message.
\<close>

theorem createProduct_no_validation:
  "db (snd (createProduct fs req w)) =
     snd (addDoc fs (collection ''products'') (body req) (db w))
   \<and> (status (last (res (snd (createProduct fs req w)))) = 400) =
       isl (fst (addDoc fs (collection ''products'') (body req) (db w)))
   \<and> (addDoc fs (collection ''products'') (body req) (db w) = (Inr r, s') \<longrightarrow>
      createProduct fs req w =
        (Inr (), \<lparr>db = s',
           res = res w @ [\<lparr>status = 200, sent = Text ''product created successfully''\<rparr>]\<rparr>))
   \<and> (addDoc fs (collection ''products'') (body req) (db w) = (Inl e, s') \<longrightarrow>
      createProduct fs req w =
        (Inr (), \<lparr>db = s', res = res w @ [\<lparr>status = 400, sent = Text (message e)\<rparr>]\<rparr>))"
proof -
  have as_is: "db (snd (createProduct fs req w)) =
     snd (addDoc fs (collection ''products'') (body req) (db w))"
    by (simp add: createProduct_run split: prod.splits sum.splits)
  have only_store: "(status (last (res (snd (createProduct fs req w)))) = 400) =
       isl (fst (addDoc fs (collection ''products'') (body req) (db w)))"
    by (simp add: createProduct_run split: prod.splits sum.splits)
  have ok: "addDoc fs (collection ''products'') (body req) (db w) = (Inr r, s') \<longrightarrow>
      createProduct fs req w =
        (Inr (), \<lparr>db = s',
           res = res w @ [\<lparr>status = 200, sent = Text ''product created successfully''\<rparr>]\<rparr>)"
    by (simp add: createProduct_run)
  have refused: "addDoc fs (collection ''products'') (body req) (db w) = (Inl e, s') \<longrightarrow>
      createProduct fs req w =
        (Inr (), \<lparr>db = s', res = res w @ [\<lparr>status = 400, sent = Text (message e)\<rparr>]\<rparr>)"
    by (simp add: createProduct_run)
  show ?thesis
    by (intro conjI; fact)
qed

theorem createProduct_no_validation_witness:
  "createProduct memory_firestore
     \<lparr>params_id = [],
      body = JObj [(''name'', JNum 5), (''colour'', JNull), (''tags'', JArr [JBool True])]\<rparr>
     \<lparr>db = [], res = []\<rparr> =
     (Inr (),
      \<lparr>db = [(''products'', ''p'',
               [(''name'', JNum 5), (''colour'', JNull), (''tags'', JArr [JBool True])])],
       res = [\<lparr>status = 200, sent = Text ''product created successfully''\<rparr>]\<rparr>)
   \<and> createProduct memory_firestore \<lparr>params_id = [], body = JStr ''Widget''\<rparr>
     \<lparr>db = [], res = []\<rparr> =
     (Inr (), \<lparr>db = [], res = [\<lparr>status = 400, sent = Text ''Data must be an object''\<rparr>]\<rparr>)"
proof -
  let ?body = "JObj [(''name'', JNum 5), (''colour'', JNull), (''tags'', JArr [JBool True])]"
  let ?req = "\<lparr>params_id = [], body = ?body\<rparr>"
  let ?bad = "\<lparr>params_id = [], body = JStr ''Widget''\<rparr>"
  let ?s' = "[(''products'', ''p'',
               [(''name'', JNum 5), (''colour'', JNull), (''tags'', JArr [JBool True])])]"
  have put: "addDoc memory_firestore (collection ''products'') (body ?req)
               (db \<lparr>db = [], res = []\<rparr>) = (Inr (DocumentRef ''products'' ''p''), ?s')"
    by (simp add: fresh_id_def)
  have no: "addDoc memory_firestore (collection ''products'') (body ?bad)
               (db \<lparr>db = [], res = []\<rparr>) = (Inl (Error ''Data must be an object''), [])"
    by simp
  note accepted = createProduct_no_validation [where fs = memory_firestore and req = ?req
      and w = "\<lparr>db = [], res = []\<rparr>" and r = "DocumentRef ''products'' ''p''" and s' = ?s',
      THEN conjunct2, THEN conjunct2, THEN conjunct1, rule_format, OF put]
  note refused = createProduct_no_validation [where fs = memory_firestore and req = ?bad
      and w = "\<lparr>db = [], res = []\<rparr>" and e = "Error ''Data must be an object''"
      and s' = "[]", THEN conjunct2, THEN conjunct2, THEN conjunct2, rule_format, OF no]
  show ?thesis
    using accepted refused by simp
qed

text \<open>
  C7 as the spec words it fails: a JSON array is a request body the JSON parser lets
  through, the store modelled from the spec refuses it, and create answers 400 and stores
  nothing.
\<close>

theorem createProduct_array_body_counterexample:
  "createProduct memory_firestore \<lparr>params_id = [], body = JArr [JNum 1, JNum 2]\<rparr>
     \<lparr>db = [], res = []\<rparr> =
     (Inr (), \<lparr>db = [], res = [\<lparr>status = 400, sent = Text ''Data must be an object''\<rparr>]\<rparr>)"
  by (simp add: createProduct_run)

section \<open>Field coverage of list and get one\<close>

text \<open>
  C10. For a document with id \<open>i\<close> and fields \<open>d\<close> that the store both lists and returns by
  id: the entry of the list response for it carries no field other than id, name, price,
  retailer and amountInStock; its id is \<open>i\<close>; each of the four named fields is there with
  the stored value exactly when the document has it; every other stored field is absent
  from the entry. Get-one for \<open>i\<close> sends \<open>d\<close> itself, every stored field unchanged.
\<close>

theorem list_drops_fields_get_keeps:
  assumes "getDocs fs (collection ''products'') (db w) = (Inr products, s1)"
      and "QueryDocumentSnapshot i d \<in> set products"
      and "doc fs ''products'' i = Inr r"
      and "getDoc fs r (db w) = (Inr (Some d), s2)"
  shows "getProducts fs req w =
           (Inr (), \<lparr>db = s1,
              res = res w @ [\<lparr>status = 200, sent = Array (map product_of products)\<rparr>]\<rparr>)
       \<and> product_of (QueryDocumentSnapshot i d) \<in> set (map product_of products)
       \<and> set (map fst (toJSON (product_of (QueryDocumentSnapshot i d)))) \<subseteq>
           {''id'', ''name'', ''price'', ''retailer'', ''amountInStock''}
       \<and> map_of (toJSON (product_of (QueryDocumentSnapshot i d))) ''id'' = Some (JStr i)
       \<and> (\<forall>k \<in> {''name'', ''price'', ''retailer'', ''amountInStock''}.
             map_of (toJSON (product_of (QueryDocumentSnapshot i d))) k = map_of d k)
       \<and> (\<forall>k. k \<notin> {''id'', ''name'', ''price'', ''retailer'', ''amountInStock''} \<longrightarrow>
             map_of (toJSON (product_of (QueryDocumentSnapshot i d))) k = None)
       \<and> getProduct fs \<lparr>params_id = i, body = b\<rparr> w =
           (Inr (), \<lparr>db = s2, res = res w @ [\<lparr>status = 200, sent = Object d\<rparr>]\<rparr>)"
proof -
  let ?entry = "product_of (QueryDocumentSnapshot i d)"
  have nonempty: "products \<noteq> []"
    using assms(2) by auto
  have list: "getProducts fs req w =
           (Inr (), \<lparr>db = s1,
              res = res w @ [\<lparr>status = 200, sent = Array (map product_of products)\<rparr>]\<rparr>)"
    using assms(1) nonempty by (simp add: getProducts_run)
  have entry: "?entry \<in> set (map product_of products)"
    using assms(2) by simp
  have lookup: "map_of (toJSON ?entry) k =
     (if k = ''id'' then Some (JStr i)
      else if k \<in> {''name'', ''price'', ''retailer'', ''amountInStock''} then map_of d k
      else None)" for k
    by (simp add: product_of_def map_of_toJSON del: toJSON.simps)
  have dropped: "\<forall>k. k \<notin> {''id'', ''name'', ''price'', ''retailer'', ''amountInStock''} \<longrightarrow>
             map_of (toJSON ?entry) k = None"
    by (simp add: lookup del: toJSON.simps)
  have names: "set (map fst (toJSON ?entry)) \<subseteq>
           {''id'', ''name'', ''price'', ''retailer'', ''amountInStock''}"
  proof
    fix k
    assume "k \<in> set (map fst (toJSON ?entry))"
    then have "map_of (toJSON ?entry) k \<noteq> None"
      by (simp add: map_of_eq_None_iff del: toJSON.simps)
    then show "k \<in> {''id'', ''name'', ''price'', ''retailer'', ''amountInStock''}"
      by (simp add: lookup del: toJSON.simps split: if_splits)
  qed
  have ident: "map_of (toJSON ?entry) ''id'' = Some (JStr i)"
    by (simp add: lookup del: toJSON.simps)
  have kept: "\<forall>k \<in> {''name'', ''price'', ''retailer'', ''amountInStock''}.
             map_of (toJSON ?entry) k = map_of d k"
    by (simp add: lookup del: toJSON.simps)
  have get: "getProduct fs \<lparr>params_id = i, body = b\<rparr> w =
           (Inr (), \<lparr>db = s2, res = res w @ [\<lparr>status = 200, sent = Object d\<rparr>]\<rparr>)"
    using assms(3,4) by (simp add: getProduct_run)
  show ?thesis
    by (intro conjI; fact)
qed

theorem list_drops_fields_get_keeps_witness:
  "getProducts memory_firestore \<lparr>params_id = [], body = JNull\<rparr>
     \<lparr>db = [(''products'', ''p'',
              [(''name'', JStr ''Widget''), (''colour'', JStr ''red''), (''id'', JStr ''mine'')])],
      res = []\<rparr> =
     (Inr (),
      \<lparr>db = [(''products'', ''p'',
               [(''name'', JStr ''Widget''), (''colour'', JStr ''red''), (''id'', JStr ''mine'')])],
       res = [\<lparr>status = 200,
               sent = Array [Product ''p'' (Some (JStr ''Widget'')) None None None]\<rparr>]\<rparr>)
   \<and> toJSON (Product ''p'' (Some (JStr ''Widget'')) None None None) =
       [(''id'', JStr ''p''), (''name'', JStr ''Widget'')]
   \<and> getProduct memory_firestore \<lparr>params_id = ''p'', body = JNull\<rparr>
     \<lparr>db = [(''products'', ''p'',
              [(''name'', JStr ''Widget''), (''colour'', JStr ''red''), (''id'', JStr ''mine'')])],
      res = []\<rparr> =
     (Inr (),
      \<lparr>db = [(''products'', ''p'',
               [(''name'', JStr ''Widget''), (''colour'', JStr ''red''), (''id'', JStr ''mine'')])],
       res = [\<lparr>status = 200,
               sent = Object [(''name'', JStr ''Widget''), (''colour'', JStr ''red''),
                              (''id'', JStr ''mine'')]\<rparr>]\<rparr>)"
proof -
  let ?d = "[(''name'', JStr ''Widget''), (''colour'', JStr ''red''), (''id'', JStr ''mine'')]"
  let ?s = "[(''products'', ''p'', ?d)]"
  have all: "getDocs memory_firestore (collection ''products'') (db \<lparr>db = ?s, res = []\<rparr>) =
               (Inr [QueryDocumentSnapshot ''p'' ?d], ?s)"
    by simp
  have listed: "QueryDocumentSnapshot ''p'' ?d \<in> set [QueryDocumentSnapshot ''p'' ?d]"
    by simp
  have ref: "doc memory_firestore ''products'' ''p'' = Inr (DocumentRef ''products'' ''p'')"
    by (simp add: memory_doc_def)
  have one: "getDoc memory_firestore (DocumentRef ''products'' ''p'')
               (db \<lparr>db = ?s, res = []\<rparr>) = (Inr (Some ?d), ?s)"
    by simp
  note both = list_drops_fields_get_keeps [OF all listed ref one,
                of "\<lparr>params_id = [], body = JNull\<rparr>" JNull]
  note list = both [THEN conjunct1]
  note get = both [THEN conjunct2, THEN conjunct2, THEN conjunct2, THEN conjunct2,
                   THEN conjunct2, THEN conjunct2]
  show ?thesis
    using list get by (simp add: product_of_def defined_props_def map_filter_simps)
qed

end
